theory Spec2Isabelle
  imports Complex_Main "HOL-Library.AList" "HOL-Library.Char_ord" "HOL-Library.List_Lexorder"
begin

section \<open>Configuration (config.py)\<close>

text \<open>
  The dataclass \<open>TrainingConfig\<close>, restricted to the options the modelled operations
  read. Python floats are modelled as reals and Python ints as \<open>int\<close>.
\<close>

record training_config =
  RETRAIN_INTERVAL_HOURS :: int
  MIN_SCHEDULES_FOR_TRAINING :: int
  MIN_SCHEDULES_FOR_RETRAIN :: int
  MODEL_VERSION :: string
  MODEL_TYPES :: "string list"
  USE_ENSEMBLE :: bool
  FEATURES :: "string list"
  USE_HYBRID :: bool
  ML_CONFIDENCE_THRESHOLD :: real

text \<open>The global instance \<open>CONFIG = TrainingConfig()\<close>, after \<open>__post_init__\<close>.\<close>

definition CONFIG :: training_config where
  "CONFIG = \<lparr>
     RETRAIN_INTERVAL_HOURS = 48,
     MIN_SCHEDULES_FOR_TRAINING = 100,
     MIN_SCHEDULES_FOR_RETRAIN = 50,
     MODEL_VERSION = ''v1.0.0'',
     MODEL_TYPES = [''gradient_boosting'', ''random_forest'', ''xgboost'', ''lightgbm'',
                    ''catboost''],
     USE_ENSEMBLE = True,
     FEATURES = [''num_trains'', ''num_available'', ''avg_readiness_score'', ''total_mileage'',
                 ''mileage_variance'', ''maintenance_count'', ''certificate_expiry_count'',
                 ''branding_priority_sum'', ''time_of_day'', ''day_of_week''],
     USE_HYBRID = True,
     ML_CONFIDENCE_THRESHOLD = 3 / 4 \<rparr>"

section \<open>Python values and errors\<close>

datatype py_error =
  TypeError | AttributeError | ZeroDivisionError | ValueError | FitError string

text \<open>
  A key of a JSON object read back from disk is absent, present with \<open>null\<close>, or
  present with a value of the expected type. \<open>d.get(k, default)\<close> yields the default
  only when the key is absent; a \<open>null\<close> comes back as \<open>None\<close>.
\<close>

datatype 'a field = Absent | Null | Val 'a

section \<open>The schedule corpus (data\_store.py)\<close>

text \<open>
  The data directory is a list of files. \<open>mtime\<close> is the modification time and every
  instant is an integer count of microseconds. \<open>content\<close> is \<open>None\<close> for a file
  that \<open>json.load\<close> cannot read.
\<close>

record 'a stored_file =
  fname :: string
  mtime :: int
  content :: "'a option"

type_synonym 'a data_dir = "'a stored_file list"

text \<open>Python's \<open>xs[:n]\<close> and \<open>xs[n:]\<close> for an integer \<open>n\<close> of either sign.\<close>

definition slice_to :: "'a list \<Rightarrow> int \<Rightarrow> 'a list" where
  "slice_to xs n = (if 0 \<le> n then take (nat n) xs else take (nat (int (length xs) + n)) xs)"

definition slice_from :: "'a list \<Rightarrow> int \<Rightarrow> 'a list" where
  "slice_from xs n = (if 0 \<le> n then drop (nat n) xs else drop (nat (int (length xs) + n)) xs)"

text \<open>\<open>sorted(self.data_dir.glob("*.json"), reverse=True)\<close>: descending by path.\<close>

definition sorted_files :: "'a data_dir \<Rightarrow> 'a data_dir" where
  "sorted_files d = rev (sort_key fname d)"

text \<open>
  \<open>save_schedule\<close>: \<open>ts\<close> is \<open>datetime.now().strftime("%Y%m%d_%H%M%S")\<close> and \<open>now\<close>
  the instant of the write. Opening an existing path for writing replaces that file.
\<close>

definition save_schedule ::
  "'a data_dir \<Rightarrow> string \<Rightarrow> int \<Rightarrow> string option \<Rightarrow> 'a \<Rightarrow> 'a data_dir \<times> string" where
  "save_schedule d ts now sid_opt payload =
     (let schedule_id = (case sid_opt of None \<Rightarrow> ''schedule_'' @ ts | Some s \<Rightarrow> s);
          filename = schedule_id @ ''_'' @ ts @ ''.json''
      in (filter (\<lambda>f. fname f \<noteq> filename) d
            @ [\<lparr>fname = filename, mtime = now, content = Some payload\<rparr>],
          filename))"

definition load_schedules :: "'a data_dir \<Rightarrow> int option \<Rightarrow> 'a list" where
  "load_schedules d limit =
     (let files = sorted_files d;
          files = (case limit of
                     None \<Rightarrow> files
                   | Some n \<Rightarrow> if n \<noteq> 0 then slice_to files n else files)
      in List.map_filter content files)"

definition count_schedules :: "'a data_dir \<Rightarrow> nat" where
  "count_schedules d = length d"

definition get_schedules_since :: "'a data_dir \<Rightarrow> int \<Rightarrow> 'a list" where
  "get_schedules_since d since =
     List.map_filter content (filter (\<lambda>f. mtime f > since) d)"

text \<open>\<open>clear_old_schedules\<close>: every file of \<open>files[keep_count:]\<close> is unlinked.\<close>

definition clear_old_schedules :: "'a data_dir \<Rightarrow> int \<Rightarrow> 'a data_dir" where
  "clear_old_schedules d keep_count =
     (let doomed = slice_from (sorted_files d) keep_count
      in filter (\<lambda>f. fname f \<notin> fname ` set doomed) d)"

section \<open>Feature extraction (feature\_extractor.py)\<close>

text \<open>
  A schedule record as it is read back from a JSON file: every key the extractor reads
  is a \<open>field\<close>. The two values the source tests with \<open>isinstance(_, dict)\<close> have a
  second alternative for anything that is not a dict.
\<close>

datatype cert_data = CertDict "string field" | CertOther

datatype branding_data = BrandingDict "string field" | BrandingOther

record trainset =
  status :: "string field"
  readiness_score :: "real field"
  cumulative_km :: "real field"
  fitness_certificates :: "(string \<times> cert_data) list field"
  branding :: "branding_data field"

record metrics =
  avg_readiness_score :: "real field"
  mileage_variance_coefficient :: "real field"
  branding_sla_compliance :: "real field"
  fitness_expiry_violations :: "real field"

record fleet =
  availability_percent :: "real field"

record schedule =
  trainsets :: "trainset list field"
  generated_at :: "string field"
  optimization_metrics :: "metrics field"
  fleet_summary :: "fleet field"

text \<open>\<open>d.get(k, default)\<close>: \<open>None\<close> in the result is Python's \<open>None\<close>.\<close>

definition get_or :: "'a field \<Rightarrow> 'a \<Rightarrow> 'a option" where
  "get_or f dflt = (case f of Absent \<Rightarrow> Some dflt | Null \<Rightarrow> None | Val v \<Rightarrow> Some v)"

text \<open>Arithmetic on a value that may be \<open>None\<close> raises \<open>TypeError\<close>.\<close>

definition num :: "real option \<Rightarrow> py_error + real" where
  "num v = (case v of None \<Rightarrow> Inl TypeError | Some x \<Rightarrow> Inr x)"

definition nums :: "real option list \<Rightarrow> py_error + real list" where
  "nums vs = (if None \<in> set vs then Inl TypeError else Inr (map the vs))"

definition and_then :: "py_error + 'a \<Rightarrow> ('a \<Rightarrow> py_error + 'b) \<Rightarrow> py_error + 'b" where
  "and_then r f = (case r of Inl e \<Rightarrow> Inl e | Inr v \<Rightarrow> f v)"

definition np_mean :: "real list \<Rightarrow> real" where
  "np_mean xs = sum_list xs / real (length xs)"

definition np_var :: "real list \<Rightarrow> real" where
  "np_var xs = np_mean (map (\<lambda>x. (x - np_mean xs)\<^sup>2) xs)"

definition np_std :: "real list \<Rightarrow> real" where
  "np_std xs = sqrt (np_var xs)"

definition np_min :: "real list \<Rightarrow> real" where
  "np_min xs = Min (set xs)"

text \<open>The loop that fills \<open>status_counts\<close>; the key \<open>None\<close> is a \<open>null\<close> status.\<close>

fun count_status :: "trainset list \<Rightarrow> (string option \<rightharpoonup> nat) \<Rightarrow> (string option \<rightharpoonup> nat)" where
  "count_status [] status_counts = status_counts"
| "count_status (train # rest) status_counts =
     (let st = get_or (status train) ''UNKNOWN''
      in count_status rest
           (status_counts(st \<mapsto> (case status_counts st of None \<Rightarrow> 0 | Some c \<Rightarrow> c) + 1)))"

definition counts_get :: "(string option \<rightharpoonup> nat) \<Rightarrow> string \<Rightarrow> nat" where
  "counts_get status_counts k = (case status_counts (Some k) of None \<Rightarrow> 0 | Some c \<Rightarrow> c)"

text \<open>Certificates of one train: \<open>None.items()\<close> raises \<open>AttributeError\<close>.\<close>

definition cert_issue :: "cert_data \<Rightarrow> nat" where
  "cert_issue c =
     (case c of
        CertDict s \<Rightarrow>
          (if get_or s ''VALID'' \<in> {Some ''EXPIRED'', Some ''EXPIRING_SOON''} then 1 else 0)
      | CertOther \<Rightarrow> 0)"

definition train_cert_issues :: "trainset \<Rightarrow> py_error + nat" where
  "train_cert_issues train =
     (case get_or (fitness_certificates train) [] of
        None \<Rightarrow> Inl AttributeError
      | Some certs \<Rightarrow> Inr (sum_list (map (\<lambda>(cert_type, c). cert_issue c) certs)))"

fun certificate_issues :: "trainset list \<Rightarrow> nat \<Rightarrow> py_error + nat" where
  "certificate_issues [] acc = Inr acc"
| "certificate_issues (train # rest) acc =
     and_then (train_cert_issues train) (\<lambda>n. certificate_issues rest (acc + n))"

definition priority_map :: "string option \<Rightarrow> nat" where
  "priority_map p =
     (if p = Some ''CRITICAL'' then 4 else if p = Some ''HIGH'' then 3
      else if p = Some ''MEDIUM'' then 2 else if p = Some ''LOW'' then 1 else 0)"

definition train_branding :: "trainset \<Rightarrow> nat" where
  "train_branding train =
     (case get_or (branding train) (BrandingDict Absent) of
        Some (BrandingDict p) \<Rightarrow> priority_map (get_or p ''NONE'')
      | _ \<Rightarrow> 0)"

text \<open>\<open>s.replace("+05:30", "")\<close>: every occurrence is removed, left to right.\<close>

function strip_offset :: "string \<Rightarrow> string" where
  "strip_offset s =
     (if s = [] then []
      else if take 6 s = ''+05:30'' then strip_offset (drop 6 s)
      else hd s # strip_offset (tl s))"
  by pat_completeness auto
termination
  by (relation "measure length") auto

text \<open>
  The time features. \<open>fromisoformat\<close> stands for \<open>datetime.fromisoformat\<close> followed by
  \<open>.hour\<close> and \<open>.weekday()\<close>: \<open>None\<close> when the parser raises. The bare \<open>except\<close>
  also catches the \<open>AttributeError\<close> of \<open>None.replace\<close>.
\<close>

definition time_features :: "(string \<Rightarrow> (nat \<times> nat) option) \<Rightarrow> schedule \<Rightarrow> nat \<times> nat" where
  "time_features fromisoformat sched =
     (case get_or (generated_at sched) [] of
        None \<Rightarrow> (12, 0)
      | Some s \<Rightarrow> (case fromisoformat (strip_offset s) of None \<Rightarrow> (12, 0) | Some hw \<Rightarrow> hw))"

type_synonym features = "string \<rightharpoonup> real"

definition extract_from_schedule ::
  "(string \<Rightarrow> (nat \<times> nat) option) \<Rightarrow> schedule \<Rightarrow> py_error + features" where
  "extract_from_schedule fromisoformat sched =
     (case get_or (trainsets sched) [] of
        None \<Rightarrow> Inl TypeError
      | Some ts \<Rightarrow>
          (let status_counts = count_status ts Map.empty;
               num_available = counts_get status_counts ''REVENUE_SERVICE''
                                 + counts_get status_counts ''STANDBY'';
               maintenance_count = counts_get status_counts ''MAINTENANCE''
           in and_then (nums (map (\<lambda>t. get_or (readiness_score t) 0) ts)) (\<lambda>readiness_scores.
              and_then (nums (map (\<lambda>t. get_or (cumulative_km t) 0) ts)) (\<lambda>mileages.
              and_then (certificate_issues ts 0) (\<lambda>certificate_issues.
                (let branding_score = sum_list (map train_branding ts);
                     (hour, weekday) = time_features fromisoformat sched
                 in Inr [''num_trains'' \<mapsto> real (length ts),
                         ''num_available'' \<mapsto> real num_available,
                         ''maintenance_count'' \<mapsto> real maintenance_count,
                         ''avg_readiness_score'' \<mapsto>
                            (if readiness_scores \<noteq> [] then np_mean readiness_scores else 0),
                         ''min_readiness_score'' \<mapsto>
                            (if readiness_scores \<noteq> [] then np_min readiness_scores else 0),
                         ''total_mileage'' \<mapsto> (if mileages \<noteq> [] then sum_list mileages else 0),
                         ''avg_mileage'' \<mapsto> (if mileages \<noteq> [] then np_mean mileages else 0),
                         ''mileage_variance'' \<mapsto> (if mileages \<noteq> [] then np_var mileages else 0),
                         ''certificate_expiry_count'' \<mapsto> real certificate_issues,
                         ''branding_priority_sum'' \<mapsto> real branding_score,
                         ''time_of_day'' \<mapsto> real hour,
                         ''day_of_week'' \<mapsto> real weekday]))))))"

definition calculate_target :: "schedule \<Rightarrow> py_error + real" where
  "calculate_target sched =
     (case get_or (optimization_metrics sched)
             \<lparr>avg_readiness_score = Absent, mileage_variance_coefficient = Absent,
              branding_sla_compliance = Absent, fitness_expiry_violations = Absent\<rparr> of
        None \<Rightarrow> Inl AttributeError
      | Some m \<Rightarrow>
          and_then (num (get_or (avg_readiness_score m) 0)) (\<lambda>avg_readiness.
          (case get_or (fleet_summary sched) \<lparr>availability_percent = Absent\<rparr> of
             None \<Rightarrow> Inl AttributeError
           | Some fs \<Rightarrow>
               and_then (num (get_or (availability_percent fs) 0)) (\<lambda>availability.
               and_then (num (get_or (mileage_variance_coefficient m) 1)) (\<lambda>mileage_var.
               and_then (num (get_or (branding_sla_compliance m) 0)) (\<lambda>branding_sla.
               and_then (num (get_or (fitness_expiry_violations m) 0)) (\<lambda>violations.
                 Inr (min 100
                       (avg_readiness * 30 + (availability / 100) * 25
                        + max 0 ((1 - mileage_var) * 20) + branding_sla * 15
                        + max 0 (10 - violations * 2))))))))))"

text \<open>The feature vector in configuration order: \<open>features.get(f, 0.0)\<close>.\<close>

definition feature_vector :: "training_config \<Rightarrow> features \<Rightarrow> real list" where
  "feature_vector cfg fs = map (\<lambda>f. case fs f of None \<Rightarrow> 0 | Some v \<Rightarrow> v) (FEATURES cfg)"

text \<open>\<open>prepare_dataset\<close>: a record whose extraction raises is skipped.\<close>

fun prepare_dataset ::
  "training_config \<Rightarrow> (string \<Rightarrow> (nat \<times> nat) option) \<Rightarrow> schedule list
     \<Rightarrow> real list list \<times> real list" where
  "prepare_dataset cfg fromisoformat [] = ([], [])"
| "prepare_dataset cfg fromisoformat (sched # rest) =
     (let (X, y) = prepare_dataset cfg fromisoformat rest
      in case and_then (extract_from_schedule fromisoformat sched) (\<lambda>fs.
              and_then (calculate_target sched) (\<lambda>target. Inr (feature_vector cfg fs, target))) of
           Inl e \<Rightarrow> (X, y)
         | Inr (v, target) \<Rightarrow> (v # X, target # y))"

section \<open>Formatting numbers into messages\<close>

function show_nat :: "nat \<Rightarrow> string" where
  "show_nat n =
     (if n < 10 then [''0123456789'' ! n]
      else show_nat (n div 10) @ [''0123456789'' ! (n mod 10)])"
  by pat_completeness auto
termination
  by (relation "measure id") auto

definition show_int :: "int \<Rightarrow> string" where
  "show_int i = (if i < 0 then ''-'' @ show_nat (nat (- i)) else show_nat (nat i))"

text \<open>
  The format \<open>{x:.2f}\<close>: the nearest multiple of one hundredth, a tie going to the
  even one, with two digits after the point.
\<close>

definition round_half_even :: "real \<Rightarrow> int" where
  "round_half_even x =
     (let n = \<lfloor>x\<rfloor>; r = x - of_int n
      in if r < 1 / 2 then n else if 1 / 2 < r then n + 1 else if even n then n else n + 1)"

definition fmt_2f :: "real \<Rightarrow> string" where
  "fmt_2f x =
     (let h = nat (round_half_even (\<bar>x\<bar> * 100))
      in (if x < 0 then ''-'' else []) @ show_nat (h div 100) @ ''.''
           @ [''0123456789'' ! (h mod 100 div 10), ''0123456789'' ! (h mod 10)])"

section \<open>The trainer (trainer.py)\<close>

datatype variant = GradientBoosting | RandomForest | XGBoost | LightGBM | CatBoost

text \<open>\<open>_get_model\<close>: an estimator for a known name, \<open>None\<close> otherwise.\<close>

definition get_model :: "string \<Rightarrow> variant option" where
  "get_model model_name =
     (if model_name = ''gradient_boosting'' then Some GradientBoosting
      else if model_name = ''random_forest'' then Some RandomForest
      else if model_name = ''xgboost'' then Some XGBoost
      else if model_name = ''lightgbm'' then Some LightGBM
      else if model_name = ''catboost'' then Some CatBoost
      else None)"

text \<open>A fitted estimator is the function \<open>predict\<close> computes on one feature vector.\<close>

type_synonym estimator = "real list \<Rightarrow> real"

record model_metrics =
  train_r2 :: real
  test_r2 :: real
  train_rmse :: real
  test_rmse :: real

type_synonym split = "real list list \<times> real list list \<times> real list \<times> real list"

text \<open>
  The numerical libraries are parameters of the model: \<open>train_test_split\<close>, and
  \<open>fit_and_score\<close> for \<open>model.fit\<close> followed by the four evaluations. Either may raise.
\<close>

record learner =
  train_test_split :: "real list list \<Rightarrow> real list \<Rightarrow> py_error + split"
  fit_and_score :: "split \<Rightarrow> variant \<Rightarrow> py_error + estimator \<times> model_metrics"

record history_entry =
  h_timestamp :: int
  h_metrics :: "(string \<times> model_metrics) list"
  h_best_model :: "string option"
  h_ensemble_weights :: "(string \<times> real) list"
  h_models_trained :: "string list"
  h_version :: string

text \<open>The attributes of \<open>ModelTrainer\<close>; a dict is an association list in insertion order.\<close>

record trainer =
  models :: "(string \<times> estimator) list"
  model_scores :: "(string \<times> real) list"
  ensemble_weights :: "(string \<times> real) list"
  best_model_name :: "string option"
  last_trained :: "int option"
  training_history :: "history_entry list"

definition new_trainer :: trainer where
  "new_trainer = \<lparr>models = [], model_scores = [], ensemble_weights = [],
     best_model_name = None, last_trained = None, training_history = []\<rparr>"

text \<open>
  The model directory. \<open>md_ensemble_weights\<close> is \<open>None\<close> when the pickled dict has no
  such key; a blob without \<open>"models"\<close>, or one that does not unpickle, is \<open>Corrupt\<close>.
\<close>

record model_data =
  md_models :: "(string \<times> estimator) list"
  md_ensemble_weights :: "(string \<times> real) list option"
  md_best_model_name :: "string option"
  md_last_trained :: "int option"
  md_version :: string
  md_features :: "string list"
  md_models_trained :: "string list"

datatype blob = Corrupt | Blob model_data

record model_dir =
  latest :: "blob option"
  archive :: "(string \<times> model_data) list"
  history_file :: "history_entry list"

definition should_retrain :: "training_config \<Rightarrow> int \<Rightarrow> 'a data_dir \<Rightarrow> trainer \<Rightarrow> bool" where
  "should_retrain cfg now d st =
     (case last_trained st of
        None \<Rightarrow> True
      | Some t \<Rightarrow>
          (let hours_since_training = real_of_int (now - t) / 1000000 / 3600
           in if hours_since_training \<ge> real_of_int (RETRAIN_INTERVAL_HOURS cfg)
              then (let new_schedules = get_schedules_since d t
                    in if int (length new_schedules) \<ge> MIN_SCHEDULES_FOR_RETRAIN cfg
                       then True else False)
              else False))"

text \<open>
  \<open>save_model\<close>: nothing is written without a model; \<open>stamp\<close> is the formatted time
  in the archive's file name.
\<close>

definition save_model :: "training_config \<Rightarrow> string \<Rightarrow> model_dir \<Rightarrow> trainer \<Rightarrow> model_dir" where
  "save_model cfg stamp md st =
     (if models st = [] then md
      else (let data = \<lparr>md_models = models st,
                         md_ensemble_weights = Some (ensemble_weights st),
                         md_best_model_name = best_model_name st,
                         md_last_trained = last_trained st,
                         md_version = MODEL_VERSION cfg,
                         md_features = FEATURES cfg,
                         md_models_trained = map fst (models st)\<rparr>
            in md\<lparr>archive := AList.update (''models_'' @ stamp @ ''.pkl'') data (archive md),
                   latest := Some (Blob data)\<rparr>))"

definition load_model :: "model_dir \<Rightarrow> trainer \<Rightarrow> trainer \<times> bool" where
  "load_model md st =
     (case latest md of
        None \<Rightarrow> (st, False)
      | Some Corrupt \<Rightarrow> (st, False)
      | Some (Blob data) \<Rightarrow>
          (st\<lparr>models := md_models data,
               ensemble_weights := (case md_ensemble_weights data of None \<Rightarrow> [] | Some w \<Rightarrow> w),
               best_model_name := md_best_model_name data,
               last_trained := md_last_trained data\<rparr>, True))"

text \<open>
  The loop over \<open>CONFIG.MODEL_TYPES\<close>. The accumulator is
  \<open>(self.models, self.model_scores, all_metrics)\<close>; an exception of \<open>fit\<close> leaves the
  loop with the accumulator as it stands.
\<close>

type_synonym fit_acc =
  "(string \<times> estimator) list \<times> (string \<times> real) list \<times> (string \<times> model_metrics) list"

fun train_models ::
  "(variant \<Rightarrow> py_error + estimator \<times> model_metrics) \<Rightarrow> string list \<Rightarrow> fit_acc
     \<Rightarrow> fit_acc \<times> py_error option" where
  "train_models fit [] acc = (acc, None)"
| "train_models fit (model_name # rest) (ms, scores, all_metrics) =
     (case get_model model_name of
        None \<Rightarrow> train_models fit rest (ms, scores, all_metrics)
      | Some v \<Rightarrow>
          (case fit v of
             Inl e \<Rightarrow> ((ms, scores, all_metrics), Some e)
           | Inr (model, m) \<Rightarrow>
               train_models fit rest
                 (AList.update model_name model ms,
                  AList.update model_name (test_r2 m) scores,
                  AList.update model_name m all_metrics)))"

text \<open>The weights: \<open>score / total_score\<close> raises when the total is zero.\<close>

definition compute_weights ::
  "training_config \<Rightarrow> (string \<times> estimator) list \<Rightarrow> (string \<times> real) list
     \<Rightarrow> py_error + (string \<times> real) list" where
  "compute_weights cfg ms scores =
     (if USE_ENSEMBLE cfg \<and> length ms > 1
      then (let total_score = sum_list (map snd scores)
            in if total_score = 0 then Inl ZeroDivisionError
               else Inr (map (\<lambda>(name, score). (name, score / total_score)) scores))
      else Inr [])"

text \<open>\<open>max(items, key=lambda x: x[1])[0]\<close>: the first item of maximal score.\<close>

fun max_item :: "(string \<times> real) \<Rightarrow> (string \<times> real) list \<Rightarrow> string \<times> real" where
  "max_item best [] = best"
| "max_item best (x # xs) = max_item (if snd x > snd best then x else best) xs"

definition find_best :: "(string \<times> real) list \<Rightarrow> string option \<Rightarrow> string option" where
  "find_best scores old =
     (case scores of [] \<Rightarrow> old | x # xs \<Rightarrow> Some (fst (max_item x xs)))"

text \<open>
  What \<open>train\<close> reads from its surroundings: the clock at the check and at the end
  of the run, the formatted time of \<open>save_model\<close>, the date parser and the learner.
\<close>

record env =
  now_check :: int
  now_done :: int
  stamp :: string
  fromisoformat :: "string \<Rightarrow> (nat \<times> nat) option"
  sklearn :: learner

record success_info =
  models_trained :: "string list"
  best_model :: "string option"
  all_metrics :: "(string \<times> model_metrics) list"
  weights :: "(string \<times> real) list"
  samples_used :: nat
  timestamp :: int

text \<open>
  The dict \<open>train\<close> returns: \<open>{"success": False, "reason": r}\<close>,
  \<open>{"success": False, "error": e}\<close> or \<open>{"success": True, ...}\<close>.
\<close>

datatype train_result = Failure_reason string | Failure_error string | Success success_info

text \<open>The end of \<open>train\<close>, from the ensemble weights on.\<close>

definition finish_train ::
  "training_config \<Rightarrow> env \<Rightarrow> model_dir \<Rightarrow> trainer \<Rightarrow> (string \<times> model_metrics) list \<Rightarrow> nat
     \<Rightarrow> (trainer \<times> model_dir) \<times> (py_error + train_result)" where
  "finish_train cfg ev md st metrics n =
     (case compute_weights cfg (models st) (model_scores st) of
        Inl e \<Rightarrow> ((st, md), Inl e)
      | Inr w \<Rightarrow>
          (let st = st\<lparr>ensemble_weights := w\<rparr>;
               st = st\<lparr>best_model_name := find_best (model_scores st) (best_model_name st)\<rparr>;
               st = st\<lparr>last_trained := Some (now_done ev)\<rparr>;
               md = save_model cfg (stamp ev) md st;
               history_entry = \<lparr>h_timestamp = now_done ev, h_metrics = metrics,
                                 h_best_model = best_model_name st,
                                 h_ensemble_weights = ensemble_weights st,
                                 h_models_trained = map fst (models st),
                                 h_version = MODEL_VERSION cfg\<rparr>;
               st = st\<lparr>training_history := training_history st @ [history_entry]\<rparr>;
               md = md\<lparr>history_file := training_history st\<rparr>
           in ((st, md),
               Inr (Success \<lparr>models_trained = map fst (models st),
                             best_model = best_model_name st,
                             all_metrics = metrics,
                             weights = ensemble_weights st,
                             samples_used = n,
                             timestamp = now_done ev\<rparr>))))"

text \<open>
  \<open>train\<close>: the trainer and the model directory as the call leaves them, and either the
  exception that leaves the call or the dict it returns.
\<close>

definition train ::
  "training_config \<Rightarrow> env \<Rightarrow> schedule data_dir \<Rightarrow> model_dir \<Rightarrow> trainer \<Rightarrow> bool
     \<Rightarrow> (trainer \<times> model_dir) \<times> (py_error + train_result)" where
  "train cfg ev d md st force =
     (if \<not> force \<and> \<not> should_retrain cfg (now_check ev) d st
      then ((st, md), Inr (Failure_reason ''Retraining not needed yet''))
      else
        (let schedules = load_schedules d None
         in if int (length schedules) < MIN_SCHEDULES_FOR_TRAINING cfg
            then ((st, md),
                  Inr (Failure_reason
                         (''Not enough data. Need '' @ show_int (MIN_SCHEDULES_FOR_TRAINING cfg)
                            @ '', have '' @ show_nat (length schedules))))
            else
              (let (X, y) = prepare_dataset cfg (fromisoformat ev) schedules
               in if length X = 0
                  then ((st, md), Inr (Failure_error ''No valid features extracted''))
                  else
                    (case train_test_split (sklearn ev) X y of
                       Inl e \<Rightarrow> ((st, md), Inl e)
                     | Inr sp \<Rightarrow>
                         (let (acc, raised) =
                                train_models (fit_and_score (sklearn ev) sp) (MODEL_TYPES cfg)
                                  ([], [], []);
                              st = st\<lparr>models := fst acc, model_scores := fst (snd acc)\<rparr>
                          in case raised of
                               Some e \<Rightarrow> ((st, md), Inl e)
                             | None \<Rightarrow> finish_train cfg ev md st (snd (snd acc)) (length X))))))"

text \<open>
  \<open>predict\<close>: the trainer after the attempt to load, the estimate and the confidence.
\<close>

definition predict ::
  "training_config \<Rightarrow> model_dir \<Rightarrow> trainer \<Rightarrow> features \<Rightarrow> bool \<Rightarrow> trainer \<times> real \<times> real" where
  "predict cfg md st fs use_ensemble =
     (let st = (if models st = [] then fst (load_model md st) else st)
      in case models st of
           [] \<Rightarrow> (st, 0, 0)
         | first # others \<Rightarrow>
             (let fv = feature_vector cfg fs
              in if use_ensemble \<and> USE_ENSEMBLE cfg \<and> ensemble_weights st \<noteq> []
                 then
                   (let prediction =
                          sum_list (map (\<lambda>(model_name, weight).
                                           case map_of (models st) model_name of
                                             None \<Rightarrow> 0
                                           | Some m \<Rightarrow> weight * m fv)
                                        (ensemble_weights st));
                        predictions = map (\<lambda>(name, m). m fv) (models st);
                        std_dev = np_std predictions;
                        confidence = max (1 / 2) (min 1 (1 - std_dev / 50))
                    in (st, prediction, confidence))
                 else
                   (let best_model =
                          (case (case best_model_name st of
                                   None \<Rightarrow> None
                                 | Some n \<Rightarrow> map_of (models st) n) of
                             None \<Rightarrow> snd first
                           | Some m \<Rightarrow> m);
                        prediction = best_model fv;
                        confidence = min 1 (8 / 10 + (prediction / 100) * (2 / 10))
                    in (st, prediction, confidence))))"

section \<open>The hybrid scheduler (hybrid\_scheduler.py)\<close>

text \<open>\<open>HybridScheduler.__init__\<close>: a fresh trainer that tries to load the latest blob.\<close>

definition new_scheduler :: "model_dir \<Rightarrow> trainer" where
  "new_scheduler md = fst (load_model md new_trainer)"

definition should_use_ml ::
  "training_config \<Rightarrow> model_dir \<Rightarrow> trainer \<Rightarrow> features \<Rightarrow> trainer \<times> bool \<times> real" where
  "should_use_ml cfg md st fs =
     (if \<not> USE_HYBRID cfg then (st, False, 0)
      else if models st = [] then (st, False, 0)
      else (let (st, prediction, confidence) = predict cfg md st fs True;
                use_ml = (confidence \<ge> ML_CONFIDENCE_THRESHOLD cfg)
            in (st, use_ml, confidence)))"

text \<open>
  \<open>_get_reason\<close>. \<open>float_repr\<close> stands for the text Python prints for the float
  \<open>CONFIG.ML_CONFIDENCE_THRESHOLD\<close>.
\<close>

definition get_reason ::
  "training_config \<Rightarrow> (real \<Rightarrow> string) \<Rightarrow> bool \<Rightarrow> bool \<Rightarrow> real \<Rightarrow> string" where
  "get_reason cfg float_repr use_ml ml_available confidence =
     (if \<not> ml_available then ''ML model not available, using optimization''
      else if \<not> USE_HYBRID cfg then ''Hybrid mode disabled, using optimization''
      else if use_ml
      then ''ML confidence ('' @ fmt_2f confidence @ '') above threshold (''
             @ float_repr (ML_CONFIDENCE_THRESHOLD cfg) @ '')''
      else ''ML confidence ('' @ fmt_2f confidence @ '') below threshold (''
             @ float_repr (ML_CONFIDENCE_THRESHOLD cfg) @ ''), using optimization'')"

record recommendation =
  use_ml :: bool
  confidence :: real
  threshold :: real
  chosen_method :: string
  reason :: string

text \<open>The features the router hands to the predictor.\<close>

definition request_features :: "(string \<rightharpoonup> real) \<Rightarrow> nat \<Rightarrow> nat \<Rightarrow> features" where
  "request_features schedule_request hour weekday =
     [''num_trains'' \<mapsto> (case schedule_request ''num_trains'' of None \<Rightarrow> 25 | Some n \<Rightarrow> n),
      ''time_of_day'' \<mapsto> real hour,
      ''day_of_week'' \<mapsto> real weekday]"

text \<open>
  \<open>get_schedule_recommendation\<close>: \<open>hour\<close> and \<open>weekday\<close> are \<open>datetime.now().hour\<close>
  and \<open>datetime.now().weekday()\<close>.
\<close>

definition get_schedule_recommendation ::
  "training_config \<Rightarrow> (real \<Rightarrow> string) \<Rightarrow> model_dir \<Rightarrow> trainer \<Rightarrow> nat \<Rightarrow> nat
     \<Rightarrow> (string \<rightharpoonup> real) \<Rightarrow> bool \<Rightarrow> trainer \<times> recommendation" where
  "get_schedule_recommendation cfg float_repr md st hour weekday schedule_request ml_available =
     (let fs = request_features schedule_request hour weekday;
          (st, use_ml_now, conf) = should_use_ml cfg md st fs
      in (st, \<lparr>use_ml = (use_ml_now \<and> ml_available),
                confidence = conf,
                threshold = ML_CONFIDENCE_THRESHOLD cfg,
                chosen_method = (if use_ml_now \<and> ml_available then ''ml'' else ''optimization''),
                reason = get_reason cfg float_repr use_ml_now ml_available conf\<rparr>))"

section \<open>Concrete inputs\<close>

text \<open>Two saves with caller-supplied ids: \<open>run_b\<close> first, \<open>run_a\<close> a day later.\<close>

definition corpus_ids :: "string data_dir" where
  "corpus_ids =
     fst (save_schedule
            (fst (save_schedule [] ''20240101_000000'' 1 (Some ''run_b'') ''first''))
            ''20240102_000000'' 2 (Some ''run_a'') ''second'')"

text \<open>A record with none of the keys, and a corpus of two such records.\<close>

definition empty_schedule :: schedule where
  "empty_schedule = \<lparr>trainsets = Absent, generated_at = Absent,
     optimization_metrics = Absent, fleet_summary = Absent\<rparr>"

definition two_schedules :: "schedule data_dir" where
  "two_schedules =
     [\<lparr>fname = ''schedule_20240101_000000_20240101_000000.json'', mtime = 1,
        content = Some empty_schedule\<rparr>,
      \<lparr>fname = ''schedule_20240102_000000_20240102_000000.json'', mtime = 2,
        content = Some empty_schedule\<rparr>]"

text \<open>A configuration for a small corpus and two model variants.\<close>

definition small_config :: training_config where
  "small_config = CONFIG\<lparr>MIN_SCHEDULES_FOR_TRAINING := 2,
     MODEL_TYPES := [''gradient_boosting'', ''random_forest'']\<rparr>"

text \<open>A fitted model that always predicts \<open>p\<close> and scores \<open>r2\<close> on the test split.\<close>

definition scored :: "real \<Rightarrow> real \<Rightarrow> estimator \<times> model_metrics" where
  "scored p r2 = (\<lambda>fv. p, \<lparr>train_r2 = r2, test_r2 = r2, train_rmse = 0, test_rmse = 0\<rparr>)"

definition learner_of :: "(variant \<Rightarrow> py_error + estimator \<times> model_metrics) \<Rightarrow> learner" where
  "learner_of fit = \<lparr>train_test_split = (\<lambda>X y. Inr (X, X, y, y)),
     fit_and_score = (\<lambda>sp. fit)\<rparr>"

definition env_of :: "(variant \<Rightarrow> py_error + estimator \<times> model_metrics) \<Rightarrow> env" where
  "env_of fit = \<lparr>now_check = 10, now_done = 20, stamp = ''20240103_000000'',
     fromisoformat = (\<lambda>s. None), sklearn = learner_of fit\<rparr>"

definition empty_dir :: model_dir where
  "empty_dir = \<lparr>latest = None, archive = [], history_file = []\<rparr>"

text \<open>Two variants that fit, with test scores 0.8 and 0.2.\<close>

definition good_fit :: "variant \<Rightarrow> py_error + estimator \<times> model_metrics" where
  "good_fit v =
     (if v = GradientBoosting then Inr (scored 50 (8 / 10)) else Inr (scored 40 (2 / 10)))"

text \<open>A trainer whose last run completed at instant 0.\<close>

definition trained_at_0 :: trainer where
  "trained_at_0 = new_trainer\<lparr>last_trained := Some 0\<rparr>"

text \<open>A blob written under another feature list, as the latest blob of a model directory.\<close>

definition stale_blob :: model_data where
  "stale_blob = \<lparr>md_models = [(''random_forest'', \<lambda>fv. 42)],
     md_ensemble_weights = Some [], md_best_model_name = Some ''random_forest'',
     md_last_trained = Some 5, md_version = ''v0.9.0'', md_features = [''speed''],
     md_models_trained = [''random_forest'']\<rparr>"

definition stale_dir :: model_dir where
  "stale_dir = \<lparr>latest = Some (Blob stale_blob), archive = [], history_file = []\<rparr>"

text \<open>
  Trainers with one model (estimate 50, and estimate -500) and with an ensemble of two
  models that estimate 30 and 70.
\<close>

definition lone_model :: trainer where
  "lone_model = new_trainer\<lparr>models := [(''random_forest'', \<lambda>fv. 50)],
     best_model_name := Some ''random_forest''\<rparr>"

definition pessimist :: trainer where
  "pessimist = new_trainer\<lparr>models := [(''random_forest'', \<lambda>fv. - 500)],
     best_model_name := Some ''random_forest''\<rparr>"

definition split_pair :: trainer where
  "split_pair =
     new_trainer\<lparr>models := [(''gradient_boosting'', \<lambda>fv. 30), (''random_forest'', \<lambda>fv. 70)],
       ensemble_weights := [(''gradient_boosting'', 1 / 2), (''random_forest'', 1 / 2)],
       best_model_name := Some ''gradient_boosting''\<rparr>"

text \<open>
  Fits whose test scores are 0.9 and -0.3, and fits whose test scores are all 0 (the
  score of any imperfect model on a test split with constant targets).
\<close>

definition negative_fit :: "variant \<Rightarrow> py_error + estimator \<times> model_metrics" where
  "negative_fit v =
     (if v = GradientBoosting then Inr (scored 50 (9 / 10)) else Inr (scored 40 (- 3 / 10)))"

definition zero_fit :: "variant \<Rightarrow> py_error + estimator \<times> model_metrics" where
  "zero_fit v = Inr (scored 10 0)"




text \<open>The text Python prints for the default threshold, and a configuration with hybrid
  mode switched off.\<close>

definition repr_075 :: "real \<Rightarrow> string" where
  "repr_075 x = ''0.75''"

definition no_hybrid :: training_config where
  "no_hybrid = CONFIG\<lparr>USE_HYBRID := False\<rparr>"

text \<open>A configuration whose retrain interval and minimum of new records are both 0, and a
  trainer whose one model returns the sum of the feature vector.\<close>

definition eager_config :: training_config where
  "eager_config = small_config\<lparr>RETRAIN_INTERVAL_HOURS := 0, MIN_SCHEDULES_FOR_RETRAIN := 0\<rparr>"

definition summing_model :: trainer where
  "summing_model = new_trainer\<lparr>models := [(''random_forest'', sum_list)],
     best_model_name := Some ''random_forest''\<rparr>"






section \<open>Properties of the corpus\<close>

lemma length_map_filter_content:
  "length (List.map_filter content fs) = length (filter (\<lambda>f. content f \<noteq> None) fs)"
  by (induction fs) (auto split: option.splits)

lemma length_get_schedules_since:
  "length (get_schedules_since d t) = length (filter (\<lambda>f. t < mtime f \<and> content f \<noteq> None) d)"
  by (simp add: get_schedules_since_def length_map_filter_content conj_commute)

text \<open>
  Claim C9. \<open>load_schedules\<close> is meant to list the most recently saved entry first and
  \<open>clear_old_schedules\<close> to keep the most recently saved entries. Both order the files
  by name, and the name starts with the schedule id: when \<open>run_b\<close> is saved before
  \<open>run_a\<close>, the older entry is listed first, and keeping one entry keeps the older one.
\<close>

theorem retain_keeps_older_entry:
  "map (\<lambda>f. (fname f, mtime f)) corpus_ids
     = [(''run_b_20240101_000000.json'', 1), (''run_a_20240102_000000.json'', 2)]
   \<and> load_schedules corpus_ids None = [''first'', ''second'']
   \<and> load_schedules (clear_old_schedules corpus_ids 1) None = [''first'']"
  by code_simp

section \<open>Properties of the retrain trigger\<close>

lemma hours_since_ge:
  "(real_of_int h \<le> real_of_int e / 1000000 / 3600) = (h * 3600000000 \<le> e)"
proof -
  have "(real_of_int h \<le> real_of_int e / 1000000 / 3600)
          = (real_of_int h * 3600000000 \<le> real_of_int e)"
    by (simp add: field_simps)
  also have "\<dots> = (real_of_int (h * 3600000000) \<le> real_of_int e)"
    by simp
  also have "\<dots> = (h * 3600000000 \<le> e)"
    by (rule of_int_le_iff)
  finally show ?thesis .
qed

lemma should_retrain_iff:
  "should_retrain cfg now d st \<longleftrightarrow>
     (last_trained st = None \<or>
      (\<exists>t. last_trained st = Some t \<and>
           RETRAIN_INTERVAL_HOURS cfg * 3600000000 \<le> now - t \<and>
           MIN_SCHEDULES_FOR_RETRAIN cfg
             \<le> int (length (filter (\<lambda>f. t < mtime f \<and> content f \<noteq> None) d))))"
  by (cases "last_trained st")
     (simp_all add: should_retrain_def Let_def hours_since_ge length_get_schedules_since)

lemma finish_train_last_trained:
  "finish_train cfg ev md st ms n = ((st', md'), Inr r) \<Longrightarrow> last_trained st' = Some (now_done ev)"
  by (auto simp: finish_train_def Let_def split: sum.splits)

lemma train_success_last_trained:
  assumes "train cfg ev d md st force = ((st', md'), Inr (Success info))"
  shows "last_trained st' = Some (now_done ev)"
  using assms
  by (auto simp: train_def Let_def split: if_splits prod.splits sum.splits option.splits
           dest: finish_train_last_trained)

lemma small_run_result:
  "snd (train small_config (env_of good_fit) two_schedules empty_dir new_trainer False)
     = Inr (Success \<lparr>models_trained = [''gradient_boosting'', ''random_forest''],
               best_model = Some ''gradient_boosting'',
               all_metrics = [(''gradient_boosting'', snd (scored 50 (8 / 10))),
                              (''random_forest'', snd (scored 40 (2 / 10)))],
               weights = [(''gradient_boosting'', 8 / 10), (''random_forest'', 2 / 10)],
               samples_used = 2, timestamp = 20\<rparr>)"
  by code_simp

text \<open>
  Claim C1, as amended. \<open>should_retrain\<close> is true exactly when the trainer has never been
  trained, or when both gates pass: the time since the last run is at least the configured
  interval (in hours; instants are microseconds) and the number of readable records
  stored since the last run is at least the configured minimum. Consequently it is false
  after a successful \<open>train\<close> for as long as less than the interval has elapsed since
  the run completed; at the instant the run completed it is true exactly when the interval
  is 0 or less and the records stored after that instant number at least the minimum, so it
  is false there under every positive interval. Once trained, it stays false while fewer
  records than the minimum have been added, however much time has passed.
\<close>

theorem should_retrain_gates:
  "(should_retrain cfg now d st \<longleftrightarrow>
      (last_trained st = None \<or>
       (\<exists>t. last_trained st = Some t \<and>
            RETRAIN_INTERVAL_HOURS cfg * 3600000000 \<le> now - t \<and>
            MIN_SCHEDULES_FOR_RETRAIN cfg
              \<le> int (length (filter (\<lambda>f. t < mtime f \<and> content f \<noteq> None) d)))))
   \<and> (train cfg ev d0 md0 st0 force = ((st, md), Inr (Success info))
        \<and> now - now_done ev < RETRAIN_INTERVAL_HOURS cfg * 3600000000
      \<longrightarrow> \<not> should_retrain cfg now d st)
   \<and> (train cfg ev d0 md0 st0 force = ((st, md), Inr (Success info))
      \<longrightarrow> (should_retrain cfg (now_done ev) d st \<longleftrightarrow>
             RETRAIN_INTERVAL_HOURS cfg \<le> 0
             \<and> MIN_SCHEDULES_FOR_RETRAIN cfg
                 \<le> int (length (filter (\<lambda>f. now_done ev < mtime f \<and> content f \<noteq> None) d))))
   \<and> (last_trained st = Some t0
        \<and> int (length (filter (\<lambda>f. t0 < mtime f \<and> content f \<noteq> None) d))
            < MIN_SCHEDULES_FOR_RETRAIN cfg
      \<longrightarrow> \<not> should_retrain cfg now d st)"
proof (intro conjI impI)
  show "should_retrain cfg now d st \<longleftrightarrow>
      (last_trained st = None \<or>
       (\<exists>t. last_trained st = Some t \<and>
            RETRAIN_INTERVAL_HOURS cfg * 3600000000 \<le> now - t \<and>
            MIN_SCHEDULES_FOR_RETRAIN cfg
              \<le> int (length (filter (\<lambda>f. t < mtime f \<and> content f \<noteq> None) d))))"
    by (rule should_retrain_iff)
next
  assume a: "train cfg ev d0 md0 st0 force = ((st, md), Inr (Success info))
        \<and> now - now_done ev < RETRAIN_INTERVAL_HOURS cfg * 3600000000"
  then have "last_trained st = Some (now_done ev)"
    by (blast dest: train_success_last_trained)
  with a show "\<not> should_retrain cfg now d st"
    by (simp add: should_retrain_iff)
next
  assume "train cfg ev d0 md0 st0 force = ((st, md), Inr (Success info))"
  then have "last_trained st = Some (now_done ev)"
    by (rule train_success_last_trained)
  then show "should_retrain cfg (now_done ev) d st \<longleftrightarrow>
             RETRAIN_INTERVAL_HOURS cfg \<le> 0
             \<and> MIN_SCHEDULES_FOR_RETRAIN cfg
                 \<le> int (length (filter (\<lambda>f. now_done ev < mtime f \<and> content f \<noteq> None) d))"
    by (simp add: should_retrain_iff)
next
  assume "last_trained st = Some t0
        \<and> int (length (filter (\<lambda>f. t0 < mtime f \<and> content f \<noteq> None) d))
            < MIN_SCHEDULES_FOR_RETRAIN cfg"
  then show "\<not> should_retrain cfg now d st"
    by (simp add: should_retrain_iff)
qed

theorem should_retrain_gates_witness:
  "should_retrain small_config 20 two_schedules new_trainer
   \<and> \<not> should_retrain small_config 20 two_schedules
         (fst (fst (train small_config (env_of good_fit) two_schedules empty_dir new_trainer False)))
   \<and> \<not> should_retrain CONFIG 200000000000 two_schedules trained_at_0"
proof -
  let ?r = "train small_config (env_of good_fit) two_schedules empty_dir new_trainer False"
  have run: "?r = ((fst (fst ?r), snd (fst ?r)),
                   Inr (Success \<lparr>models_trained = [''gradient_boosting'', ''random_forest''],
                          best_model = Some ''gradient_boosting'',
                          all_metrics = [(''gradient_boosting'', snd (scored 50 (8 / 10))),
                                         (''random_forest'', snd (scored 40 (2 / 10)))],
                          weights = [(''gradient_boosting'', 8 / 10), (''random_forest'', 2 / 10)],
                          samples_used = 2, timestamp = 20\<rparr>))"
    using small_run_result by (metis prod.collapse)
  have soon: "20 - now_done (env_of good_fit) < RETRAIN_INTERVAL_HOURS small_config * 3600000000"
    by (simp add: env_of_def small_config_def CONFIG_def)
  have never: "last_trained new_trainer = None"
    by (simp add: new_trainer_def)
  have few: "last_trained trained_at_0 = Some 0
     \<and> int (length (filter (\<lambda>f. 0 < mtime f \<and> content f \<noteq> None) two_schedules))
          < MIN_SCHEDULES_FOR_RETRAIN CONFIG"
    by (simp add: trained_at_0_def new_trainer_def two_schedules_def CONFIG_def)
  from should_retrain_gates [of small_config 20 two_schedules new_trainer] never
  have a: "should_retrain small_config 20 two_schedules new_trainer"
    by simp
  from should_retrain_gates [of small_config 20 two_schedules "fst (fst ?r)" "env_of good_fit"
         two_schedules empty_dir new_trainer False "snd (fst ?r)"] run soon
  have b: "\<not> should_retrain small_config 20 two_schedules (fst (fst ?r))"
    by blast
  from should_retrain_gates [of CONFIG 200000000000 two_schedules trained_at_0] few
  have c: "\<not> should_retrain CONFIG 200000000000 two_schedules trained_at_0"
    by blast
  from a b c show ?thesis by blast
qed

text \<open>
  With an interval of 0 hours and a minimum of 0 new records, \<open>should_retrain\<close> is true at
  the instant a successful run completed.
\<close>

theorem retrain_right_after_train_counterexample:
  "snd (train eager_config (env_of good_fit) two_schedules empty_dir new_trainer False)
     = Inr (Success \<lparr>models_trained = [''gradient_boosting'', ''random_forest''],
               best_model = Some ''gradient_boosting'',
               all_metrics = [(''gradient_boosting'', snd (scored 50 (8 / 10))),
                              (''random_forest'', snd (scored 40 (2 / 10)))],
               weights = [(''gradient_boosting'', 8 / 10), (''random_forest'', 2 / 10)],
               samples_used = 2, timestamp = 20\<rparr>)
   \<and> now_done (env_of good_fit) = 20
   \<and> should_retrain eager_config 20 two_schedules
        (fst (fst (train eager_config (env_of good_fit) two_schedules empty_dir new_trainer False)))"
  by code_simp

section \<open>Properties of training with too little data\<close>

lemma two_records_message:
  "int (length (load_schedules two_schedules None)) < MIN_SCHEDULES_FOR_TRAINING CONFIG
   \<and> ''Not enough data. Need '' @ show_int (MIN_SCHEDULES_FOR_TRAINING CONFIG)
        @ '', have '' @ show_nat (length (load_schedules two_schedules None))
       = ''Not enough data. Need 100, have 2''"
  by code_simp

text \<open>
  Claim C5, as amended. When fewer records are available than the configured minimum
  for training, \<open>train\<close> raises nothing and leaves the trainer and the model directory
  as they were. The failure it returns is "Not enough data" when \<open>force\<close> is set or
  \<open>should_retrain\<close> holds, and "Retraining not needed yet" otherwise: that gate comes
  first in the source.
\<close>

theorem train_insufficient_data:
  assumes "int (length (load_schedules d None)) < MIN_SCHEDULES_FOR_TRAINING cfg"
  shows "train cfg ev d md st force =
     ((st, md),
      Inr (Failure_reason
             (if \<not> force \<and> \<not> should_retrain cfg (now_check ev) d st
              then ''Retraining not needed yet''
              else ''Not enough data. Need '' @ show_int (MIN_SCHEDULES_FOR_TRAINING cfg)
                     @ '', have '' @ show_nat (length (load_schedules d None)))))"
  using assms by (simp add: train_def Let_def)

theorem train_insufficient_data_witness:
  "train CONFIG (env_of good_fit) two_schedules empty_dir trained_at_0 True
     = ((trained_at_0, empty_dir), Inr (Failure_reason ''Not enough data. Need 100, have 2''))"
  using train_insufficient_data [of two_schedules CONFIG "env_of good_fit" empty_dir trained_at_0 True]
        two_records_message
  by simp

text \<open>
  With two records, a minimum of 100, a trainer last trained a moment ago and
  \<open>force = False\<close>, the answer is "Retraining not needed yet".
\<close>

theorem train_not_needed_counterexample:
  "int (length (load_schedules two_schedules None)) < MIN_SCHEDULES_FOR_TRAINING CONFIG
   \<and> snd (train CONFIG (env_of good_fit) two_schedules empty_dir trained_at_0 False)
       = Inr (Failure_reason ''Retraining not needed yet'')"
  by code_simp

section \<open>Properties of loading the latest blob\<close>

text \<open>
  Claim C7, as amended. \<open>load_model\<close> installs the models, weights, best-model name
  and last-trained time of the latest blob whenever the blob can be read, whatever
  feature list the blob stores: that entry is never looked at. Only a missing or
  unreadable blob leaves the trainer as it was, with the answer \<open>False\<close>.
\<close>

theorem load_model_installs_any_blob:
  "(latest md = Some (Blob data) \<longrightarrow>
      load_model md st =
        (st\<lparr>models := md_models data,
            ensemble_weights := (case md_ensemble_weights data of None \<Rightarrow> [] | Some w \<Rightarrow> w),
            best_model_name := md_best_model_name data,
            last_trained := md_last_trained data\<rparr>, True)
      \<and> load_model (md\<lparr>latest := Some (Blob (data\<lparr>md_features := fs\<rparr>))\<rparr>) st = load_model md st)
   \<and> (latest md = None \<or> latest md = Some Corrupt \<longrightarrow> load_model md st = (st, False))"
  by (auto simp: load_model_def)

theorem load_model_installs_any_blob_witness:
  "load_model stale_dir new_trainer
     = (new_trainer\<lparr>models := md_models stale_blob, ensemble_weights := [],
          best_model_name := Some ''random_forest'', last_trained := Some 5\<rparr>, True)
   \<and> load_model (stale_dir\<lparr>latest := Some (Blob (stale_blob\<lparr>md_features := FEATURES CONFIG\<rparr>))\<rparr>)
        new_trainer = load_model stale_dir new_trainer
   \<and> load_model empty_dir new_trainer = (new_trainer, False)"
proof -
  have a: "latest stale_dir = Some (Blob stale_blob)"
    by (simp add: stale_dir_def)
  have b: "latest empty_dir = None \<or> latest empty_dir = Some Corrupt"
    by (simp add: empty_dir_def)
  from load_model_installs_any_blob [of stale_dir stale_blob new_trainer "FEATURES CONFIG"] a
       load_model_installs_any_blob [of empty_dir stale_blob new_trainer "[]"] b
  show ?thesis
    by (simp add: stale_blob_def)
qed

text \<open>
  A blob stored under the feature list \<open>["speed"]\<close> is installed under the default
  configuration, and the next \<open>predict\<close> answers from its model.
\<close>

theorem load_model_stale_features_counterexample:
  "md_features stale_blob \<noteq> FEATURES CONFIG
   \<and> snd (load_model stale_dir new_trainer)
   \<and> map fst (models (fst (load_model stale_dir new_trainer))) = [''random_forest'']
   \<and> snd (predict CONFIG stale_dir new_trainer Map.empty True) = (42, 221 / 250)"
proof -
  have loaded: "md_features stale_blob \<noteq> FEATURES CONFIG
     \<and> snd (load_model stale_dir new_trainer)
     \<and> map fst (models (fst (load_model stale_dir new_trainer))) = [''random_forest'']"
    by code_simp
  have used: "snd (predict CONFIG stale_dir new_trainer Map.empty True) = (42, 221 / 250)"
    by (simp add: predict_def load_model_def stale_dir_def stale_blob_def new_trainer_def
          Let_def)
  from loaded used show ?thesis by blast
qed

section \<open>Properties of the confidence\<close>

lemma predict_state:
  "fst (predict cfg md st fs ue) = (if models st = [] then fst (load_model md st) else st)"
  by (simp add: predict_def Let_def split: list.splits)

lemma predict_ensemble_mode:
  assumes "st' = (if models st = [] then fst (load_model md st) else st)"
    and "models st' \<noteq> []"
    and "ue \<and> USE_ENSEMBLE cfg \<and> ensemble_weights st' \<noteq> []"
  shows "snd (snd (predict cfg md st fs ue))
           = max (1 / 2)
               (min 1 (1 - np_std (map (\<lambda>(name, m). m (feature_vector cfg fs)) (models st')) / 50))"
proof (cases "models st = []")
  case True
  with assms show ?thesis
    by (cases "models (fst (load_model md st))") (simp_all add: predict_def Let_def)
next
  case False
  with assms show ?thesis
    by (cases "models st") (simp_all add: predict_def Let_def)
qed

lemma predict_single_mode:
  assumes "st' = (if models st = [] then fst (load_model md st) else st)"
    and "models st' \<noteq> []"
    and "\<not> (ue \<and> USE_ENSEMBLE cfg \<and> ensemble_weights st' \<noteq> [])"
  shows "snd (snd (predict cfg md st fs ue))
           = min 1 (8 / 10 + (fst (snd (predict cfg md st fs ue)) / 100) * (2 / 10))"
proof (cases "models st = []")
  case True
  with assms show ?thesis
    by (cases "models (fst (load_model md st))") (auto simp: predict_def Let_def)
next
  case False
  with assms show ?thesis
    by (cases "models st") (auto simp: predict_def Let_def)
qed

lemma pessimist_predict:
  "predict CONFIG empty_dir pessimist fs True = (pessimist, - 500, - 1 / 5)"
  by (simp add: predict_def pessimist_def new_trainer_def Let_def)

lemma split_pair_predict:
  "predict CONFIG empty_dir split_pair fs True = (split_pair, 50, 3 / 5)"
proof -
  have "sqrt 400 = 20"
    by (rule real_sqrt_unique) simp_all
  then show ?thesis
    by (simp add: predict_def split_pair_def new_trainer_def Let_def CONFIG_def
          np_std_def np_var_def np_mean_def)
qed

lemma lone_model_predict:
  "predict CONFIG empty_dir lone_model fs True = (lone_model, 50, 9 / 10)"
  by (simp add: predict_def lone_model_def new_trainer_def Let_def)

text \<open>
  Claim C3, as amended. With models loaded, the confidence of \<open>predict\<close> in ensemble
  mode is the standard deviation of all model estimates, divided by 50, taken from 1 and
  clamped to the interval from 0.5 to 1. In single-model mode it is the smaller of 1 and
  0.8 + estimate / 100 * 0.2: at most 1, and at least 0 exactly when the estimate is at
  least -400, since nothing clamps it from below.
\<close>

theorem predict_confidence_bounds:
  assumes "models (fst (predict cfg md st fs ue)) \<noteq> []"
  shows "(ue \<and> USE_ENSEMBLE cfg \<and> ensemble_weights (fst (predict cfg md st fs ue)) \<noteq> [] \<longrightarrow>
            snd (snd (predict cfg md st fs ue))
              = max (1 / 2)
                  (min 1 (1 - np_std (map (\<lambda>(name, m). m (feature_vector cfg fs))
                                        (models (fst (predict cfg md st fs ue)))) / 50))
            \<and> 1 / 2 \<le> snd (snd (predict cfg md st fs ue))
            \<and> snd (snd (predict cfg md st fs ue)) \<le> 1)
       \<and> (\<not> (ue \<and> USE_ENSEMBLE cfg \<and> ensemble_weights (fst (predict cfg md st fs ue)) \<noteq> []) \<longrightarrow>
            snd (snd (predict cfg md st fs ue))
              = min 1 (8 / 10 + (fst (snd (predict cfg md st fs ue)) / 100) * (2 / 10))
            \<and> snd (snd (predict cfg md st fs ue)) \<le> 1
            \<and> (0 \<le> snd (snd (predict cfg md st fs ue))
                 \<longleftrightarrow> - 400 \<le> fst (snd (predict cfg md st fs ue))))"
proof -
  define st' where "st' = fst (predict cfg md st fs ue)"
  define c where "c = snd (snd (predict cfg md st fs ue))"
  define p where "p = fst (snd (predict cfg md st fs ue))"
  have st': "st' = (if models st = [] then fst (load_model md st) else st)"
    by (simp add: st'_def predict_state)
  have loaded: "models st' \<noteq> []"
    using assms by (simp add: st'_def)
  have ens: "c = max (1 / 2)
                  (min 1 (1 - np_std (map (\<lambda>(name, m). m (feature_vector cfg fs)) (models st')) / 50))"
    if "ue \<and> USE_ENSEMBLE cfg \<and> ensemble_weights st' \<noteq> []"
    unfolding c_def using predict_ensemble_mode [OF st' loaded that] .
  have single: "c = min 1 (8 / 10 + (p / 100) * (2 / 10))"
    if "\<not> (ue \<and> USE_ENSEMBLE cfg \<and> ensemble_weights st' \<noteq> [])"
    unfolding c_def p_def using predict_single_mode [OF st' loaded that] .
  have "(ue \<and> USE_ENSEMBLE cfg \<and> ensemble_weights st' \<noteq> [] \<longrightarrow>
            c = max (1 / 2)
                  (min 1 (1 - np_std (map (\<lambda>(name, m). m (feature_vector cfg fs)) (models st')) / 50))
            \<and> 1 / 2 \<le> c \<and> c \<le> 1)
       \<and> (\<not> (ue \<and> USE_ENSEMBLE cfg \<and> ensemble_weights st' \<noteq> []) \<longrightarrow>
            c = min 1 (8 / 10 + (p / 100) * (2 / 10)) \<and> c \<le> 1 \<and> (0 \<le> c \<longleftrightarrow> - 400 \<le> p))"
  proof (intro conjI impI)
    assume e: "ue \<and> USE_ENSEMBLE cfg \<and> ensemble_weights st' \<noteq> []"
    show "c = max (1 / 2)
                  (min 1 (1 - np_std (map (\<lambda>(name, m). m (feature_vector cfg fs)) (models st')) / 50))"
      by (rule ens [OF e])
    show "1 / 2 \<le> c" by (subst ens [OF e]) simp
    show "c \<le> 1" by (subst ens [OF e]) simp
  next
    assume s: "\<not> (ue \<and> USE_ENSEMBLE cfg \<and> ensemble_weights st' \<noteq> [])"
    show "c = min 1 (8 / 10 + (p / 100) * (2 / 10))"
      by (rule single [OF s])
    show "c \<le> 1" by (subst single [OF s]) simp
    show "0 \<le> c \<longleftrightarrow> - 400 \<le> p"
      by (subst single [OF s]) (auto simp: min_def)
  qed
  then show ?thesis
    unfolding st'_def c_def p_def .
qed

theorem predict_confidence_bounds_witness:
  "snd (snd (predict CONFIG empty_dir split_pair Map.empty True)) = 3 / 5
   \<and> (1 / 2 :: real) \<le> 3 / 5 \<and> (3 / 5 :: real) \<le> 1
   \<and> snd (snd (predict CONFIG empty_dir lone_model Map.empty True)) \<le> 1
   \<and> 0 \<le> snd (snd (predict CONFIG empty_dir lone_model Map.empty True))"
proof -
  have e: "models (fst (predict CONFIG empty_dir split_pair Map.empty True)) \<noteq> []"
    by (simp add: split_pair_predict) (simp add: split_pair_def)
  have s: "models (fst (predict CONFIG empty_dir lone_model Map.empty True)) \<noteq> []"
    by (simp add: lone_model_predict) (simp add: lone_model_def)
  have single: "\<not> (True \<and> USE_ENSEMBLE CONFIG
      \<and> ensemble_weights (fst (predict CONFIG empty_dir lone_model Map.empty True)) \<noteq> [])"
    by (simp add: lone_model_predict) (simp add: lone_model_def new_trainer_def)
  have est: "- 400 \<le> fst (snd (predict CONFIG empty_dir lone_model Map.empty True))"
    by (simp add: lone_model_predict)
  from predict_confidence_bounds [OF s] single est
  have "snd (snd (predict CONFIG empty_dir lone_model Map.empty True)) \<le> 1
     \<and> 0 \<le> snd (snd (predict CONFIG empty_dir lone_model Map.empty True))"
    by blast
  moreover from predict_confidence_bounds [OF e]
  have "snd (snd (predict CONFIG empty_dir split_pair Map.empty True)) = 3 / 5"
    by (simp add: split_pair_predict)
  ultimately show ?thesis by simp
qed

text \<open>A single model whose estimate is -500 gives the confidence -0.2.\<close>

theorem single_model_confidence_counterexample:
  "models (fst (predict CONFIG empty_dir pessimist Map.empty True)) \<noteq> []
   \<and> snd (snd (predict CONFIG empty_dir pessimist Map.empty True)) = - 1 / 5
   \<and> snd (snd (predict CONFIG empty_dir pessimist Map.empty True)) < 0"
  by (simp add: pessimist_predict) (simp add: pessimist_def)

section \<open>Properties of the training run\<close>


lemma train_models_keys:
  assumes "train_models fit names (ms, scores, ams) = ((ms', scores', ams'), raised)"
    and "map fst ms = map fst scores"
  shows "map fst ms' = map fst scores'"
  using assms
proof (induction names arbitrary: ms scores ams)
  case Nil
  then show ?case by simp
next
  case (Cons n names)
  show ?case
  proof (cases "get_model n")
    case None
    with Cons show ?thesis by simp
  next
    case (Some v)
    show ?thesis
    proof (cases "fit v")
      case (Inl e)
      with Some Cons.prems show ?thesis by simp
    next
      case (Inr r)
      obtain model m where r: "r = (model, m)" by (cases r)
      have "map fst (AList.update n model ms) = map fst (AList.update n (test_r2 m) scores)"
        using Cons.prems(2) by (simp add: update_keys)
      with Cons.IH [of "AList.update n model ms" "AList.update n (test_r2 m) scores"
                       "AList.update n m ams"] Cons.prems(1) Some Inr r
      show ?thesis by simp
    qed
  qed
qed




lemma sum_list_divide:
  "sum_list (map (\<lambda>x. f x / c) xs) = sum_list (map f xs) / (c :: real)"
  by (induction xs) (simp_all add: add_divide_distrib)

lemma compute_weights_Inr:
  assumes "compute_weights cfg ms scores = Inr w" and "length ms = length scores"
  shows "(w = [] \<longleftrightarrow> \<not> USE_ENSEMBLE cfg \<or> length ms < 2)"
    and "w \<noteq> [] \<Longrightarrow> w = map (\<lambda>(name, score). (name, score / sum_list (map snd scores))) scores"
    and "w \<noteq> [] \<Longrightarrow> sum_list (map snd w) = 1"
    and "w \<noteq> [] \<Longrightarrow> \<forall>s\<in>snd ` set scores. 0 \<le> s \<Longrightarrow> \<forall>x\<in>snd ` set w. 0 \<le> x"
proof -
  show "(w = [] \<longleftrightarrow> \<not> USE_ENSEMBLE cfg \<or> length ms < 2)"
    using assms by (auto simp: compute_weights_def Let_def split: if_splits)
  show eq: "w = map (\<lambda>(name, score). (name, score / sum_list (map snd scores))) scores"
    if "w \<noteq> []"
    using assms that by (auto simp: compute_weights_def Let_def split: if_splits)
  have total: "sum_list (map snd scores) \<noteq> 0" if "w \<noteq> []"
    using assms that by (auto simp: compute_weights_def Let_def split: if_splits)
  show "sum_list (map snd w) = 1" if "w \<noteq> []"
  proof -
    have "map snd w = map (\<lambda>x. snd x / sum_list (map snd scores)) scores"
      by (subst eq [OF that]) (simp add: case_prod_beta)
    then have "sum_list (map snd w) = sum_list (map snd scores) / sum_list (map snd scores)"
      by (simp add: sum_list_divide)
    with total [OF that] show ?thesis by simp
  qed
  show "\<forall>x\<in>snd ` set w. 0 \<le> x" if ne: "w \<noteq> []" and pos: "\<forall>s\<in>snd ` set scores. 0 \<le> s"
  proof -
    have "0 \<le> sum_list (map snd scores)"
      using pos by (intro sum_list_nonneg) auto
    with pos show ?thesis
      by (subst eq [OF ne]) (auto simp: case_prod_beta)
  qed
qed

lemma finish_train_Inr:
  assumes "finish_train cfg ev md st ams n = ((st', md'), Inr r)"
  shows "compute_weights cfg (models st) (model_scores st) = Inr (ensemble_weights st')"
    and "models st' = models st" and "model_scores st' = model_scores st"
    and "\<exists>info. r = Success info \<and> weights info = ensemble_weights st'
           \<and> models_trained info = map fst (models st)"
  using assms by (auto simp: finish_train_def Let_def split: sum.splits)


lemma train_success_weights:
  assumes "train cfg ev d md st force = ((st', md'), Inr (Success info))"
  shows "compute_weights cfg (models st') (model_scores st') = Inr (ensemble_weights st')
         \<and> length (models st') = length (model_scores st')
         \<and> weights info = ensemble_weights st'"
proof -
  from assms obtain sp acc n where
    loop: "train_models (fit_and_score (sklearn ev) sp) (MODEL_TYPES cfg) ([], [], [])
             = (acc, None)"
    and fin: "finish_train cfg ev md (st\<lparr>models := fst acc, model_scores := fst (snd acc)\<rparr>)
                (snd (snd acc)) n = ((st', md'), Inr (Success info))"
    by (auto simp: train_def Let_def
             split: if_splits prod.splits sum.splits option.splits)
  obtain ms scores ams where acc: "acc = (ms, scores, ams)"
    by (cases acc) auto
  have keys: "map fst ms = map fst scores"
    using train_models_keys [OF loop [unfolded acc]] by simp
  have "length ms = length scores"
    using keys by (metis length_map)
  with finish_train_Inr [OF fin] acc show ?thesis
    by auto
qed

lemma small_run_weights:
  "ensemble_weights
     (fst (fst (train small_config (env_of good_fit) two_schedules empty_dir new_trainer False)))
     = [(''gradient_boosting'', 4 / 5), (''random_forest'', 1 / 5)]"
  by code_simp

text \<open>
  Claim C2, as amended. After every training run that returns its success result, the
  ensemble weights are empty exactly when ensembling is disabled or fewer than two models
  were trained. When they are not empty, each weight is the model's test score divided
  by the total of the scores and the weights sum to 1; every weight is non-negative
  provided no test score is negative. The result reports the same weights.
\<close>

theorem weights_after_training:
  assumes "train cfg ev d md st force = ((st', md'), Inr (Success info))"
  shows "(ensemble_weights st' = [] \<longleftrightarrow> \<not> USE_ENSEMBLE cfg \<or> length (models st') < 2)
     \<and> (ensemble_weights st' \<noteq> [] \<longrightarrow>
          sum_list (map snd (ensemble_weights st')) = 1
          \<and> ensemble_weights st'
              = map (\<lambda>(name, score). (name, score / sum_list (map snd (model_scores st'))))
                  (model_scores st'))
     \<and> (ensemble_weights st' \<noteq> [] \<and> (\<forall>s\<in>snd ` set (model_scores st'). 0 \<le> s) \<longrightarrow>
          (\<forall>w\<in>snd ` set (ensemble_weights st'). 0 \<le> w))
     \<and> weights info = ensemble_weights st'"
proof -
  from train_success_weights [OF assms]
  have cw: "compute_weights cfg (models st') (model_scores st') = Inr (ensemble_weights st')"
    and len: "length (models st') = length (model_scores st')"
    and info: "weights info = ensemble_weights st'"
    by simp_all
  note facts = compute_weights_Inr [OF cw len]
  show ?thesis
    using facts(1) facts(2) facts(3) facts(4) info by blast
qed

theorem weights_after_training_witness:
  "sum_list (map snd (ensemble_weights
      (fst (fst (train small_config (env_of good_fit) two_schedules empty_dir new_trainer False)))))
     = 1
   \<and> ensemble_weights
        (fst (fst (train small_config (env_of good_fit) two_schedules empty_dir new_trainer False)))
       = [(''gradient_boosting'', 8 / 10), (''random_forest'', 2 / 10)]"
proof -
  let ?r = "train small_config (env_of good_fit) two_schedules empty_dir new_trainer False"
  have run: "?r = ((fst (fst ?r), snd (fst ?r)),
                   Inr (Success \<lparr>models_trained = [''gradient_boosting'', ''random_forest''],
                          best_model = Some ''gradient_boosting'',
                          all_metrics = [(''gradient_boosting'', snd (scored 50 (8 / 10))),
                                         (''random_forest'', snd (scored 40 (2 / 10)))],
                          weights = [(''gradient_boosting'', 8 / 10), (''random_forest'', 2 / 10)],
                          samples_used = 2, timestamp = 20\<rparr>))"
    using small_run_result by (metis prod.collapse)
  have ne: "ensemble_weights (fst (fst ?r)) \<noteq> []"
    by (simp add: small_run_weights)
  have scores: "model_scores (fst (fst ?r)) = [(''gradient_boosting'', 4 / 5), (''random_forest'', 1 / 5)]"
    by code_simp
  have pos: "\<forall>s\<in>snd ` set (model_scores (fst (fst ?r))). 0 \<le> s"
    by (simp add: scores)
  from weights_after_training [OF run] ne pos
  have "sum_list (map snd (ensemble_weights (fst (fst ?r)))) = 1
     \<and> (\<forall>w\<in>snd ` set (ensemble_weights (fst (fst ?r))). 0 \<le> w)
     \<and> weights \<lparr>models_trained = [''gradient_boosting'', ''random_forest''],
                  best_model = Some ''gradient_boosting'',
                  all_metrics = [(''gradient_boosting'', snd (scored 50 (8 / 10))),
                                 (''random_forest'', snd (scored 40 (2 / 10)))],
                  weights = [(''gradient_boosting'', 8 / 10), (''random_forest'', 2 / 10)],
                  samples_used = 2, timestamp = 20\<rparr>
         = ensemble_weights (fst (fst ?r))"
    by blast
  then show ?thesis
    by simp
qed

text \<open>
  The test score is a coefficient of determination and may be negative: with the scores
  0.9 and -0.3 the run succeeds with the weights 1.5 and -0.5.
\<close>

theorem negative_weight_counterexample:
  "snd (train small_config (env_of negative_fit) two_schedules empty_dir new_trainer True)
     = Inr (Success \<lparr>models_trained = [''gradient_boosting'', ''random_forest''],
               best_model = Some ''gradient_boosting'',
               all_metrics = [(''gradient_boosting'', snd (scored 50 (9 / 10))),
                              (''random_forest'', snd (scored 40 (- 3 / 10)))],
               weights = [(''gradient_boosting'', 3 / 2), (''random_forest'', - 1 / 2)],
               samples_used = 2, timestamp = 20\<rparr>)
   \<and> ensemble_weights
        (fst (fst (train small_config (env_of negative_fit) two_schedules empty_dir new_trainer True)))
       = [(''gradient_boosting'', 3 / 2), (''random_forest'', - 1 / 2)]"
  by code_simp

text \<open>
  When the scores total zero the division raises: the run ends with the exception, the
  new models already installed and no last-trained time set.
\<close>

lemma train_zero_total_raises:
  "snd (train small_config (env_of zero_fit) two_schedules empty_dir new_trainer True)
     = Inl ZeroDivisionError
   \<and> map fst (models (fst (fst (train small_config (env_of zero_fit) two_schedules empty_dir
                                  new_trainer True))))
       = [''gradient_boosting'', ''random_forest'']
   \<and> last_trained (fst (fst (train small_config (env_of zero_fit) two_schedules empty_dir
                                new_trainer True))) = None"
  by code_simp

section \<open>Properties of the loop over the model variants\<close>










section \<open>Properties of the router\<close>

lemma fmt_examples: "fmt_2f 0 = ''0.00'' \<and> fmt_2f (3 / 5) = ''0.60'' \<and> fmt_2f (9 / 10) = ''0.90''"
  by code_simp

text \<open>Claim C4, as amended. The recommendation of the router is a function of four things:
  whether hybrid mode is on, whether an ensemble is present, the confidence of the prediction
  and the availability flag of the caller. With hybrid mode off or no ensemble present the
  confidence is 0 and the fallback is selected; otherwise ML is used exactly when the
  confidence reaches the threshold and the caller reports the model available, and the method
  is \<open>optimization\<close> in every other case. The reason names the unavailable model whenever
  the caller's flag is false, then the disabled hybrid mode, and otherwise cites the confidence
  with two decimals and the threshold, as above it or as below it; the last form is also the
  one given when no ensemble is present.\<close>

theorem recommendation_table:
  "snd (get_schedule_recommendation cfg float_repr md st hour weekday req ml_available) =
     (let ensemble_present = (models st \<noteq> []);
          conf = (if USE_HYBRID cfg \<and> ensemble_present
                  then snd (snd (predict cfg md st (request_features req hour weekday) True))
                  else 0);
          confident = (USE_HYBRID cfg \<and> ensemble_present \<and> ML_CONFIDENCE_THRESHOLD cfg \<le> conf)
      in \<lparr>use_ml = (confident \<and> ml_available),
          confidence = conf,
          threshold = ML_CONFIDENCE_THRESHOLD cfg,
          chosen_method = (if confident \<and> ml_available then ''ml'' else ''optimization''),
          reason =
            (if \<not> ml_available then ''ML model not available, using optimization''
             else if \<not> USE_HYBRID cfg then ''Hybrid mode disabled, using optimization''
             else if confident
             then ''ML confidence ('' @ fmt_2f conf @ '') above threshold (''
                    @ float_repr (ML_CONFIDENCE_THRESHOLD cfg) @ '')''
             else ''ML confidence ('' @ fmt_2f conf @ '') below threshold (''
                    @ float_repr (ML_CONFIDENCE_THRESHOLD cfg) @ ''), using optimization'')\<rparr>)"
  by (simp add: get_schedule_recommendation_def should_use_ml_def get_reason_def Let_def
        split: prod.splits)

text \<open>Threshold 0.75 and confidence 0.60 with the model available: the fallback is chosen and
  the reason cites both numbers.\<close>

theorem recommendation_table_witness:
  "snd (get_schedule_recommendation CONFIG repr_075 empty_dir split_pair 9 2 Map.empty True)
     = \<lparr>use_ml = False, confidence = 3 / 5, threshold = 3 / 4, chosen_method = ''optimization'',
        reason = ''ML confidence (0.60) below threshold (0.75), using optimization''\<rparr>"
proof -
  have cfg: "USE_HYBRID CONFIG" "ML_CONFIDENCE_THRESHOLD CONFIG = 3 / 4"
    by (simp_all add: CONFIG_def)
  have st: "models split_pair \<noteq> []"
    by (simp add: split_pair_def)
  have two_dec: "fmt_2f (3 / 5) = ''0.60''"
    using fmt_examples by simp
  show ?thesis
    using recommendation_table [of CONFIG repr_075 empty_dir split_pair 9 2 Map.empty True]
    by (simp add: cfg st two_dec split_pair_predict repr_075_def Let_def)
qed

text \<open>With no ensemble present and the flag true the reason cites a confidence of 0.00
  below the threshold; with hybrid mode disabled and the flag false the reason names the
  unavailable model.\<close>

theorem recommendation_reason_counterexample:
  "models new_trainer = []
   \<and> reason (snd (get_schedule_recommendation CONFIG repr_075 empty_dir new_trainer 9 2
                    Map.empty True))
       = ''ML confidence (0.00) below threshold (0.75), using optimization''
   \<and> \<not> USE_HYBRID no_hybrid
   \<and> reason (snd (get_schedule_recommendation no_hybrid repr_075 empty_dir split_pair 9 2
                    Map.empty False))
       = ''ML model not available, using optimization''"
  using fmt_examples
  by (simp add: get_schedule_recommendation_def should_use_ml_def get_reason_def Let_def
        new_trainer_def CONFIG_def no_hybrid_def repr_075_def)

lemma feature_vector_request:
  "feature_vector cfg (request_features req hour weekday) =
     map (\<lambda>f. if f = ''num_trains'' then (case req ''num_trains'' of None \<Rightarrow> 25 | Some n \<Rightarrow> n)
               else if f = ''time_of_day'' then real hour
               else if f = ''day_of_week'' then real weekday
               else 0) (FEATURES cfg)"
  by (auto simp: feature_vector_def request_features_def)

lemma predict_loaded:
  assumes "models st = first # others"
  shows "predict cfg md st fs use_ensemble =
     (let fv = feature_vector cfg fs
      in if use_ensemble \<and> USE_ENSEMBLE cfg \<and> ensemble_weights st \<noteq> []
         then (st,
               sum_list (map (\<lambda>(model_name, weight).
                                case map_of (models st) model_name of
                                  None \<Rightarrow> 0
                                | Some m \<Rightarrow> weight * m fv)
                             (ensemble_weights st)),
               max (1 / 2) (min 1 (1 - np_std (map (\<lambda>(name, m). m fv) (models st)) / 50)))
         else (let best_model =
                     (case (case best_model_name st of
                              None \<Rightarrow> None
                            | Some n \<Rightarrow> map_of (models st) n) of
                        None \<Rightarrow> snd first
                      | Some m \<Rightarrow> m)
               in (st, best_model fv, min 1 (8 / 10 + (best_model fv / 100) * (2 / 10)))))"
  using assms by (simp add: predict_def Let_def)

lemma fmt_example_088: "fmt_2f (441 / 500) = ''0.88''"
  by code_simp

text \<open>Claim C10. The features the router builds for a request are exactly \<open>num_trains\<close>
  (25 when the request has none), \<open>time_of_day\<close> and \<open>day_of_week\<close>. The predictor,
  given them, evaluates its models on the vector over the configured features that holds
  these three values and 0 for every other feature, and returns the weighted sum with the
  spread-based confidence in ensemble mode and the best model's estimate with the
  estimate-based confidence otherwise. The recommendation is computed from the confidence of
  that prediction, the threshold, the hybrid switch and the caller's flag, and the trainer is
  left as it was; so two requests with the same \<open>num_trains\<close> get the same
  recommendation.\<close>

theorem router_features:
  "dom (request_features req hour weekday) = {''num_trains'', ''time_of_day'', ''day_of_week''}
   \<and> request_features req hour weekday ''num_trains''
       = Some (case req ''num_trains'' of None \<Rightarrow> 25 | Some n \<Rightarrow> n)
   \<and> request_features req hour weekday ''time_of_day'' = Some (real hour)
   \<and> request_features req hour weekday ''day_of_week'' = Some (real weekday)
   \<and> feature_vector cfg (request_features req hour weekday) =
       map (\<lambda>f. if f = ''num_trains'' then (case req ''num_trains'' of None \<Rightarrow> 25 | Some n \<Rightarrow> n)
                 else if f = ''time_of_day'' then real hour
                 else if f = ''day_of_week'' then real weekday
                 else 0) (FEATURES cfg)
   \<and> (models st = first # others \<longrightarrow>
        predict cfg md st (request_features req hour weekday) use_ensemble =
          (let fv = map (\<lambda>f. if f = ''num_trains''
                              then (case req ''num_trains'' of None \<Rightarrow> 25 | Some n \<Rightarrow> n)
                              else if f = ''time_of_day'' then real hour
                              else if f = ''day_of_week'' then real weekday
                              else 0) (FEATURES cfg)
           in if use_ensemble \<and> USE_ENSEMBLE cfg \<and> ensemble_weights st \<noteq> []
              then (st,
                    sum_list (map (\<lambda>(model_name, weight).
                                     case map_of (models st) model_name of
                                       None \<Rightarrow> 0
                                     | Some m \<Rightarrow> weight * m fv)
                                  (ensemble_weights st)),
                    max (1 / 2)
                      (min 1 (1 - np_std (map (\<lambda>(name, m). m fv) (models st)) / 50)))
              else (let best_model =
                          (case (case best_model_name st of
                                   None \<Rightarrow> None
                                 | Some n \<Rightarrow> map_of (models st) n) of
                             None \<Rightarrow> snd first
                           | Some m \<Rightarrow> m)
                    in (st, best_model fv,
                        min 1 (8 / 10 + (best_model fv / 100) * (2 / 10))))))
   \<and> get_schedule_recommendation cfg float_repr md st hour weekday req ml_available =
       (let ensemble_present = (models st \<noteq> []);
            conf = (if USE_HYBRID cfg \<and> ensemble_present
                    then snd (snd (predict cfg md st (request_features req hour weekday) True))
                    else 0);
            confident = (USE_HYBRID cfg \<and> ensemble_present \<and> ML_CONFIDENCE_THRESHOLD cfg \<le> conf)
        in (st,
            \<lparr>use_ml = (confident \<and> ml_available),
             confidence = conf,
             threshold = ML_CONFIDENCE_THRESHOLD cfg,
             chosen_method = (if confident \<and> ml_available then ''ml'' else ''optimization''),
             reason =
               (if \<not> ml_available then ''ML model not available, using optimization''
                else if \<not> USE_HYBRID cfg then ''Hybrid mode disabled, using optimization''
                else if confident
                then ''ML confidence ('' @ fmt_2f conf @ '') above threshold (''
                       @ float_repr (ML_CONFIDENCE_THRESHOLD cfg) @ '')''
                else ''ML confidence ('' @ fmt_2f conf @ '') below threshold (''
                       @ float_repr (ML_CONFIDENCE_THRESHOLD cfg) @ ''), using optimization'')\<rparr>))
   \<and> (req ''num_trains'' = req' ''num_trains'' \<longrightarrow>
        get_schedule_recommendation cfg float_repr md st hour weekday req ml_available
          = get_schedule_recommendation cfg float_repr md st hour weekday req' ml_available)"
proof (intro conjI impI)
  show "dom (request_features req hour weekday) = {''num_trains'', ''time_of_day'', ''day_of_week''}"
    by (auto simp: request_features_def split: if_splits)
  show fv: "feature_vector cfg (request_features req hour weekday) =
       map (\<lambda>f. if f = ''num_trains'' then (case req ''num_trains'' of None \<Rightarrow> 25 | Some n \<Rightarrow> n)
                 else if f = ''time_of_day'' then real hour
                 else if f = ''day_of_week'' then real weekday
                 else 0) (FEATURES cfg)"
    by (rule feature_vector_request)
  have same_state: "fst (predict cfg md st fs True) = st" if "models st \<noteq> []" for fs
    using that by (cases "models st") (simp_all add: predict_loaded Let_def)
  show "get_schedule_recommendation cfg float_repr md st hour weekday req ml_available =
       (let ensemble_present = (models st \<noteq> []);
            conf = (if USE_HYBRID cfg \<and> ensemble_present
                    then snd (snd (predict cfg md st (request_features req hour weekday) True))
                    else 0);
            confident = (USE_HYBRID cfg \<and> ensemble_present \<and> ML_CONFIDENCE_THRESHOLD cfg \<le> conf)
        in (st,
            \<lparr>use_ml = (confident \<and> ml_available),
             confidence = conf,
             threshold = ML_CONFIDENCE_THRESHOLD cfg,
             chosen_method = (if confident \<and> ml_available then ''ml'' else ''optimization''),
             reason =
               (if \<not> ml_available then ''ML model not available, using optimization''
                else if \<not> USE_HYBRID cfg then ''Hybrid mode disabled, using optimization''
                else if confident
                then ''ML confidence ('' @ fmt_2f conf @ '') above threshold (''
                       @ float_repr (ML_CONFIDENCE_THRESHOLD cfg) @ '')''
                else ''ML confidence ('' @ fmt_2f conf @ '') below threshold (''
                       @ float_repr (ML_CONFIDENCE_THRESHOLD cfg) @ ''), using optimization'')\<rparr>))"
    using same_state [of "request_features req hour weekday"]
    by (auto simp: get_schedule_recommendation_def should_use_ml_def get_reason_def Let_def
          split: prod.splits)
next
  assume m: "models st = first # others"
  show "predict cfg md st (request_features req hour weekday) use_ensemble =
          (let fv = map (\<lambda>f. if f = ''num_trains''
                              then (case req ''num_trains'' of None \<Rightarrow> 25 | Some n \<Rightarrow> n)
                              else if f = ''time_of_day'' then real hour
                              else if f = ''day_of_week'' then real weekday
                              else 0) (FEATURES cfg)
           in if use_ensemble \<and> USE_ENSEMBLE cfg \<and> ensemble_weights st \<noteq> []
              then (st,
                    sum_list (map (\<lambda>(model_name, weight).
                                     case map_of (models st) model_name of
                                       None \<Rightarrow> 0
                                     | Some m \<Rightarrow> weight * m fv)
                                  (ensemble_weights st)),
                    max (1 / 2)
                      (min 1 (1 - np_std (map (\<lambda>(name, m). m fv) (models st)) / 50)))
              else (let best_model =
                          (case (case best_model_name st of
                                   None \<Rightarrow> None
                                 | Some n \<Rightarrow> map_of (models st) n) of
                             None \<Rightarrow> snd first
                           | Some m \<Rightarrow> m)
                    in (st, best_model fv,
                        min 1 (8 / 10 + (best_model fv / 100) * (2 / 10)))))"
    unfolding predict_loaded [OF m] feature_vector_request ..
next
  assume "req ''num_trains'' = req' ''num_trains''"
  then have "request_features req hour weekday = request_features req' hour weekday"
    by (simp add: request_features_def)
  then show "get_schedule_recommendation cfg float_repr md st hour weekday req ml_available
          = get_schedule_recommendation cfg float_repr md st hour weekday req' ml_available"
    by (simp add: get_schedule_recommendation_def)
qed (simp_all add: request_features_def)

text \<open>A request with an extra key is treated like the one without it; with 30 trains at
  hour 9 of weekday 2 a model that sums its input estimates 41, which gives the confidence
  0.882 and selects ML; an empty request is read as 25 trains.\<close>

theorem router_features_witness:
  "get_schedule_recommendation CONFIG repr_075 empty_dir summing_model 9 2
      [''num_trains'' \<mapsto> 30, ''depot_count'' \<mapsto> 7] True
     = get_schedule_recommendation CONFIG repr_075 empty_dir summing_model 9 2
         [''num_trains'' \<mapsto> 30] True
   \<and> snd (get_schedule_recommendation CONFIG repr_075 empty_dir summing_model 9 2
            [''num_trains'' \<mapsto> 30, ''depot_count'' \<mapsto> 7] True)
       = \<lparr>use_ml = True, confidence = 441 / 500, threshold = 3 / 4, chosen_method = ''ml'',
          reason = ''ML confidence (0.88) above threshold (0.75)''\<rparr>
   \<and> predict CONFIG empty_dir summing_model
        (request_features [''num_trains'' \<mapsto> 30, ''depot_count'' \<mapsto> 7] 9 2) False
       = (summing_model, 41, 441 / 500)
   \<and> feature_vector CONFIG (request_features Map.empty 9 2) = [25, 0, 0, 0, 0, 0, 0, 0, 9, 2]"
proof -
  let ?req = "[''num_trains'' \<mapsto> 30 :: real, ''depot_count'' \<mapsto> 7]"
  have same: "?req ''num_trains'' = [''num_trains'' \<mapsto> 30] ''num_trains''"
    by simp
  have m: "models summing_model = [(''random_forest'', sum_list)]"
    by (simp add: summing_model_def)
  have cfg: "USE_HYBRID CONFIG" "ML_CONFIDENCE_THRESHOLD CONFIG = 3 / 4"
    by (simp_all add: CONFIG_def)
  note inst = router_features [where req = ?req and hour = 9 and weekday = 2 and cfg = CONFIG
         and float_repr = repr_075 and md = empty_dir and st = summing_model
         and ml_available = True and req' = "[''num_trains'' \<mapsto> 30]"
         and first = "(''random_forest'', sum_list)" and others = "[]"]
  from inst same
  have a: "get_schedule_recommendation CONFIG repr_075 empty_dir summing_model 9 2 ?req True
     = get_schedule_recommendation CONFIG repr_075 empty_dir summing_model 9 2
         [''num_trains'' \<mapsto> 30] True"
    by blast
  from inst [where use_ensemble = False] m
  have b: "predict CONFIG empty_dir summing_model (request_features ?req 9 2) False
       = (summing_model, 41, 441 / 500)"
    by (simp add: Let_def) (simp add: CONFIG_def summing_model_def new_trainer_def)
  from inst [where use_ensemble = True] m
  have b': "predict CONFIG empty_dir summing_model (request_features ?req 9 2) True
       = (summing_model, 41, 441 / 500)"
    by (simp add: Let_def) (simp add: CONFIG_def summing_model_def new_trainer_def)
  from inst [where use_ensemble = True]
  have c: "snd (get_schedule_recommendation CONFIG repr_075 empty_dir summing_model 9 2 ?req True)
       = \<lparr>use_ml = True, confidence = 441 / 500, threshold = 3 / 4, chosen_method = ''ml'',
          reason = ''ML confidence (0.88) above threshold (0.75)''\<rparr>"
    by (simp add: Let_def m cfg b' fmt_example_088 repr_075_def)
  from router_features [where req = Map.empty and hour = 9 and weekday = 2 and cfg = CONFIG]
  have d: "feature_vector CONFIG (request_features Map.empty 9 2) = [25, 0, 0, 0, 0, 0, 0, 0, 9, 2]"
    by (simp add: CONFIG_def)
  from a b c d show ?thesis by blast
qed

section \<open>Properties of the feature extractor\<close>













end
